theory Spec2Isabelle
  imports Main
begin

section \<open>Go library functions the package calls\<close>

text \<open>
  The package \<^verbatim>\<open>internal/params\<close> calls three functions of the Go standard library:
  \<^verbatim>\<open>strconv.Atoi\<close>, \<^verbatim>\<open>strings.ToLower\<close> and \<^verbatim>\<open>url.Values.Get\<close>. They are modelled here
  from the library's own sources. A Go \<^verbatim>\<open>string\<close> is a sequence of bytes, which is what
  \<^typ>\<open>string\<close> is. A Go \<^verbatim>\<open>int\<close> is modelled as \<^typ>\<open>int\<close>: the package does no
  arithmetic on integers, so the only place where the width of \<^verbatim>\<open>int\<close> shows is the range
  check of \<^verbatim>\<open>strconv.Atoi\<close>, which is written out below for the 64-bit \<^verbatim>\<open>int\<close>.
\<close>

subsection \<open>strconv.Atoi\<close>

datatype NumError = ErrSyntax | ErrRange

definition isDigit :: "char \<Rightarrow> bool" where
  "isDigit c = (48 \<le> (of_char c :: nat) \<and> (of_char c :: nat) \<le> 57)"

definition maxUint64 :: nat where
  "maxUint64 = 2 ^ 64 - 1"

text \<open>
  The loop of \<^verbatim>\<open>strconv.ParseUint(s, 10, 64)\<close> over the bytes of \<open>s\<close>, with the value read
  so far: a byte that is no decimal digit is a syntax error, a value that does not fit
  64 unsigned bits is a range error (Go tests \<^verbatim>\<open>n >= cutoff\<close> before it multiplies, and
  \<^verbatim>\<open>n1 < n || n1 > maxVal\<close> after it adds; on \<^typ>\<open>nat\<close> nothing wraps, and the second
  test is \<open>maxUint64 < n1\<close>).
\<close>

fun parseUintLoop :: "nat \<Rightarrow> string \<Rightarrow> nat \<times> NumError option" where
  "parseUintLoop n [] = (n, None)"
| "parseUintLoop n (c # cs) =
     (if \<not> isDigit c then (0, Some ErrSyntax)
      else if maxUint64 div 10 + 1 \<le> n then (maxUint64, Some ErrRange)
      else (let n1 = n * 10 + ((of_char c :: nat) - 48)
            in if maxUint64 < n1 then (maxUint64, Some ErrRange)
               else parseUintLoop n1 cs))"

definition ParseUint :: "string \<Rightarrow> nat \<times> NumError option" where
  "ParseUint s = (if s = [] then (0, Some ErrSyntax) else parseUintLoop 0 s)"

text \<open>
  \<^verbatim>\<open>strconv.ParseInt(s, 10, 0)\<close>: an optional sign, then \<^verbatim>\<open>ParseUint\<close>, then the range of
  the signed 64-bit \<^verbatim>\<open>int\<close>. The value returned beside an error is 0 for a syntax error
  and the nearest bound for a range error.
\<close>

definition ParseInt :: "string \<Rightarrow> int \<times> NumError option" where
  "ParseInt s0 =
     (case s0 of
        [] \<Rightarrow> (0, Some ErrSyntax)
      | c # cs \<Rightarrow>
          (let neg = (c = CHR ''-'');
               s = (if c = CHR ''+'' \<or> c = CHR ''-'' then cs else s0);
               (un, err) = ParseUint s
           in if err = Some ErrSyntax then (0, err)
              else if \<not> neg \<and> 2 ^ 63 \<le> un then (2 ^ 63 - 1, Some ErrRange)
              else if neg \<and> 2 ^ 63 < un then (- (2 ^ 63), Some ErrRange)
              else (if neg then - int un else int un, None)))"

text \<open>
  \<^verbatim>\<open>strconv.Atoi(s)\<close> is \<^verbatim>\<open>ParseInt(s, 10, 0)\<close> converted to \<^verbatim>\<open>int\<close>; its fast path for
  short strings computes the same value and the same error.
\<close>

definition Atoi :: "string \<Rightarrow> int \<times> NumError option" where
  "Atoi s = ParseInt s"

subsection \<open>strings.ToLower\<close>

definition lowerByte :: "char \<Rightarrow> char" where
  "lowerByte c =
     (if 65 \<le> (of_char c :: nat) \<and> (of_char c :: nat) \<le> 90
      then char_of ((of_char c :: nat) + 32) else c)"

text \<open>
  \<^verbatim>\<open>strings.ToLower(s)\<close>: when every byte of \<open>s\<close> is below \<^verbatim>\<open>utf8.RuneSelf\<close> (128), the bytes
  \<^verbatim>\<open>'A'\<close> to \<^verbatim>\<open>'Z'\<close> are moved to \<^verbatim>\<open>'a'\<close> to \<^verbatim>\<open>'z'\<close> and the others are kept. Otherwise
  Go returns \<^verbatim>\<open>strings.Map(unicode.ToLower, s)\<close>, whose Unicode case tables are no part of
  this repository: that function is the parameter \<open>mapLower\<close>, and every theorem below
  holds for each value of it.
\<close>

definition ToLower :: "(string \<Rightarrow> string) \<Rightarrow> string \<Rightarrow> string" where
  "ToLower mapLower s =
     (if list_all (\<lambda>c. (of_char c :: nat) < 128) s then map lowerByte s else mapLower s)"

subsection \<open>url.Values.Get\<close>

text \<open>
  \<^verbatim>\<open>url.Values\<close> is \<^verbatim>\<open>map[string][]string\<close>; \<^verbatim>\<open>Get\<close> returns the first value of the key,
  and the empty string when the key is absent or has no value.
\<close>

definition Get :: "(string \<rightharpoonup> string list) \<Rightarrow> string \<Rightarrow> string" where
  "Get v key = (case v key of None \<Rightarrow> [] | Some [] \<Rightarrow> [] | Some (x # xs) \<Rightarrow> x)"

section \<open>The package params\<close>

subsection \<open>Data\<close>

datatype error = ErrInvalidSize | ErrInvalidBlurAmount | ErrInvalidFileExtension

definition defaultBlurAmount :: int where
  "defaultBlurAmount = 5"

definition minBlurAmount :: int where
  "minBlurAmount = 1"

definition maxBlurAmount :: int where
  "maxBlurAmount = 10"

definition maxImageSize :: int where
  "maxImageSize = 5000"

record Params =
  Width :: int
  Height :: int
  Blur :: bool
  BlurAmount :: int
  Grayscale :: bool
  Extension :: string

text \<open>
  Modelled from the spec: the struct \<^verbatim>\<open>database.Image\<close>, declared in the package
  \<^verbatim>\<open>internal/database\<close>, is not among the sources. The spec's image metadata exposes the
  natural width and height of the source image as integers; these are the only fields
  the package reads.
\<close>

record Image =
  Image_Width :: int
  Image_Height :: int

text \<open>
  What the package reads of an \<^verbatim>\<open>*http.Request\<close>: the path variables that
  \<^verbatim>\<open>mux.Vars(r)\<close> returns (a \<^verbatim>\<open>map[string]string\<close>) and the query parameters that
  \<^verbatim>\<open>r.URL.Query()\<close> returns (a \<^verbatim>\<open>url.Values\<close>). Everything else in a request is the
  extension part of the record.
\<close>

record Request =
  Vars :: "string \<rightharpoonup> string"
  Query :: "string \<rightharpoonup> string list"

subsection \<open>Parsing the request\<close>

definition intParam :: "'a Request_scheme \<Rightarrow> string \<Rightarrow> int \<times> bool" where
  "intParam r name =
     (case Vars r name of
        Some val \<Rightarrow> (let (v, err) = Atoi val in (v, err = None))
      | None \<Rightarrow> (- 1, False))"

definition getSize :: "'a Request_scheme \<Rightarrow> int \<times> int \<times> error option" where
  "getSize r =
     (let (size, ok) = intParam r ''size''
      in if ok then (size, size, None)
         else (let (width, ok) = intParam r ''width''
               in if \<not> ok then (- 1, - 1, Some ErrInvalidSize)
                  else (let (height, ok) = intParam r ''height''
                        in if \<not> ok then (- 1, - 1, Some ErrInvalidSize)
                           else (width, height, None))))"

definition getFileExtension ::
  "(string \<Rightarrow> string) \<Rightarrow> 'a Request_scheme \<Rightarrow> string \<times> error option" where
  "getFileExtension mapLower r =
     (let val = ToLower mapLower (case Vars r ''extension'' of None \<Rightarrow> [] | Some v \<Rightarrow> v);
          val = (if val = [] then ''.jpg'' else val)
      in if val \<noteq> ''.jpg'' \<and> val \<noteq> ''.webp'' then ([], Some ErrInvalidFileExtension)
         else (val, None))"

definition getQueryParams :: "'a Request_scheme \<Rightarrow> bool \<times> bool \<times> int" where
  "getQueryParams r =
     (let grayscale = (if Query r ''grayscale'' \<noteq> None then True else False)
      in if Query r ''blur'' \<noteq> None
         then (let (val, err) = Atoi (Get (Query r) ''blur'')
               in if err = None then (grayscale, True, val)
                  else (grayscale, True, defaultBlurAmount))
         else (grayscale, False, 0))"

text \<open>
  \<^verbatim>\<open>GetParams\<close> returns a pointer and an error; the pointer is \<open>None\<close> for Go's \<^verbatim>\<open>nil\<close>
  and otherwise the struct it points to.
\<close>

definition GetParams ::
  "(string \<Rightarrow> string) \<Rightarrow> 'a Request_scheme \<Rightarrow> Params option \<times> error option" where
  "GetParams mapLower r =
     (let (width, height, err) = getSize r
      in if err \<noteq> None then (None, err)
         else (let (extension, err) = getFileExtension mapLower r
               in if err \<noteq> None then (None, err)
                  else (let (grayscale, blur, blurAmount) = getQueryParams r
                        in (Some \<lparr>Width = width, Height = height, Blur = blur,
                                  BlurAmount = blurAmount, Grayscale = grayscale,
                                  Extension = extension\<rparr>, None))))"

subsection \<open>Validation and dimensions\<close>

text \<open>
  \<^verbatim>\<open>Validate\<close> and \<^verbatim>\<open>Dimensions\<close> are methods on \<^verbatim>\<open>*Params\<close> that take a
  \<^verbatim>\<open>*database.Image\<close>: both structs are reached through pointers, so a method body could
  assign to their fields. The state of a call is the pair of the two structs; each method
  returns its result together with the state it leaves. The named results \<^verbatim>\<open>width\<close> and
  \<^verbatim>\<open>height\<close> of \<^verbatim>\<open>Dimensions\<close> are local variables of the call. Both pointers are taken to
  point to a struct.
\<close>

record Objects =
  params_obj :: Params
  image_obj :: Image

definition Validate_st :: "Objects \<Rightarrow> error option \<times> Objects" where
  "Validate_st s =
     (if maxImageSize < Width (params_obj s) \<and> Width (params_obj s) \<noteq> Image_Width (image_obj s)
      then (Some ErrInvalidSize, s)
      else if maxImageSize < Height (params_obj s)
              \<and> Height (params_obj s) \<noteq> Image_Height (image_obj s)
      then (Some ErrInvalidSize, s)
      else if Blur (params_obj s) \<and> BlurAmount (params_obj s) < minBlurAmount
      then (Some ErrInvalidBlurAmount, s)
      else if Blur (params_obj s) \<and> maxBlurAmount < BlurAmount (params_obj s)
      then (Some ErrInvalidBlurAmount, s)
      else (None, s))"

definition Dimensions_st :: "Objects \<Rightarrow> (int \<times> int) \<times> Objects" where
  "Dimensions_st s =
     (let width = Width (params_obj s);
          height = Height (params_obj s);
          width = (if width = 0 then Image_Width (image_obj s) else width);
          height = (if height = 0 then Image_Height (image_obj s) else height)
      in ((width, height), s))"

definition Validate :: "Params \<Rightarrow> Image \<Rightarrow> error option" where
  "Validate p img = fst (Validate_st \<lparr>params_obj = p, image_obj = img\<rparr>)"

definition Dimensions :: "Params \<Rightarrow> Image \<Rightarrow> int \<times> int" where
  "Dimensions p databaseImage = fst (Dimensions_st \<lparr>params_obj = p, image_obj = databaseImage\<rparr>)"


section \<open>Evaluation and unfolding\<close>

text \<open>
  The facts that let the simplifier run the library models on a concrete string.
\<close>

lemmas strconv_eval = Atoi_def ParseInt_def ParseUint_def isDigit_def maxUint64_def

lemmas strings_eval = ToLower_def lowerByte_def char_of_def bit_0

text \<open>
  What \<^verbatim>\<open>strconv.Atoi\<close> accepts: an optional sign and decimal digits, within the range of
  the 64-bit \<^verbatim>\<open>int\<close>. It rejects the empty string, a lone sign, spaces, underscores and
  a value out of range.
\<close>

lemma Atoi_accepts:
  "Atoi ''300'' = (300, None)"
  "Atoi ''+7'' = (7, None)"
  "Atoi ''-0042'' = (- 42, None)"
  "Atoi ''9223372036854775807'' = (2 ^ 63 - 1, None)"
  "Atoi ''-9223372036854775808'' = (- (2 ^ 63), None)"
  by (simp_all add: strconv_eval)

lemma Atoi_rejects:
  "Atoi [] = (0, Some ErrSyntax)"
  "Atoi ''-'' = (0, Some ErrSyntax)"
  "Atoi '' 5'' = (0, Some ErrSyntax)"
  "Atoi ''1_000'' = (0, Some ErrSyntax)"
  "Atoi ''12a'' = (0, Some ErrSyntax)"
  "Atoi ''9223372036854775808'' = (2 ^ 63 - 1, Some ErrRange)"
  "Atoi ''-9223372036854775809'' = (- (2 ^ 63), Some ErrRange)"
  "Atoi ''99999999999999999999999999'' = (2 ^ 63 - 1, Some ErrRange)"
  by (simp_all add: strconv_eval)

text \<open>
  In general: a non-empty string of decimal digits, alone or behind a sign, is read as the
  number it denotes (the fold below) whenever that number is in the range of the 64-bit
  \<^verbatim>\<open>int\<close>.
\<close>

lemma decimal_mono:
  "n \<le> foldl (\<lambda>a c. a * 10 + ((of_char c :: nat) - 48)) n ds"
proof (induction ds arbitrary: n)
  case Nil
  show ?case by simp
next
  case (Cons c cs)
  have "n \<le> n * 10 + ((of_char c :: nat) - 48)" by simp
  also have "\<dots> \<le> foldl (\<lambda>a c. a * 10 + ((of_char c :: nat) - 48)) (n * 10 + ((of_char c :: nat) - 48)) cs"
    by (rule Cons.IH)
  finally show ?case by simp
qed

lemma parseUintLoop_decimal:
  assumes "list_all isDigit ds"
    and "foldl (\<lambda>a c. a * 10 + ((of_char c :: nat) - 48)) n ds \<le> maxUint64"
  shows "parseUintLoop n ds = (foldl (\<lambda>a c. a * 10 + ((of_char c :: nat) - 48)) n ds, None)"
  using assms
proof (induction ds arbitrary: n)
  case Nil
  show ?case by simp
next
  case (Cons c cs)
  let ?n1 = "n * 10 + ((of_char c :: nat) - 48)"
  have bound: "?n1 \<le> maxUint64"
    using decimal_mono [of ?n1 cs] Cons.prems(2) by simp
  then have "\<not> maxUint64 div 10 + 1 \<le> n" by linarith
  moreover have "isDigit c" and "list_all isDigit cs"
    using Cons.prems(1) by simp_all
  moreover have "parseUintLoop ?n1 cs
      = (foldl (\<lambda>a c. a * 10 + ((of_char c :: nat) - 48)) ?n1 cs, None)"
    using Cons.IH [of ?n1] Cons.prems by simp
  ultimately show ?case using bound by (simp add: Let_def)
qed

lemma Atoi_decimal:
  assumes "ds \<noteq> []" and "list_all isDigit ds"
    and "foldl (\<lambda>a c. a * 10 + ((of_char c :: nat) - 48)) 0 ds = m"
  shows "m < 2 ^ 63 \<Longrightarrow> Atoi ds = (int m, None)"
    and "m < 2 ^ 63 \<Longrightarrow> Atoi (CHR ''+'' # ds) = (int m, None)"
    and "m \<le> 2 ^ 63 \<Longrightarrow> Atoi (CHR ''-'' # ds) = (- int m, None)"
proof -
  have nosign: "hd ds \<noteq> CHR ''+'' \<and> hd ds \<noteq> CHR ''-''"
    using assms(1,2) by (cases ds) (auto simp: isDigit_def)
  have loop: "m \<le> 2 ^ 63 \<Longrightarrow> ParseUint ds = (m, None)"
    using parseUintLoop_decimal [OF assms(2), of 0] assms(1,3)
    by (simp add: ParseUint_def maxUint64_def)
  show "m < 2 ^ 63 \<Longrightarrow> Atoi ds = (int m, None)"
    using loop nosign assms(1) by (cases ds) (auto simp: Atoi_def ParseInt_def Let_def)
  show "m < 2 ^ 63 \<Longrightarrow> Atoi (CHR ''+'' # ds) = (int m, None)"
    using loop by (simp add: Atoi_def ParseInt_def Let_def)
  show "m \<le> 2 ^ 63 \<Longrightarrow> Atoi (CHR ''-'' # ds) = (- int m, None)"
    using loop by (simp add: Atoi_def ParseInt_def Let_def)
qed

text \<open>
  The results of the two methods, without the state they thread.
\<close>

lemma Validate_unfold:
  "Validate p img =
     (if maxImageSize < Width p \<and> Width p \<noteq> Image_Width img then Some ErrInvalidSize
      else if maxImageSize < Height p \<and> Height p \<noteq> Image_Height img then Some ErrInvalidSize
      else if Blur p \<and> BlurAmount p < minBlurAmount then Some ErrInvalidBlurAmount
      else if Blur p \<and> maxBlurAmount < BlurAmount p then Some ErrInvalidBlurAmount
      else None)"
  by (simp add: Validate_def Validate_st_def)

lemma Dimensions_unfold:
  "Dimensions p img =
     (if Width p = 0 then Image_Width img else Width p,
      if Height p = 0 then Image_Height img else Height p)"
  by (simp add: Dimensions_def Dimensions_st_def Let_def)

section \<open>Size resolution\<close>

text \<open>
  \<^verbatim>\<open>intParam\<close> reports success exactly when the path variable is present and
  \<^verbatim>\<open>strconv.Atoi\<close> accepts its value; this is what "integer-parseable" means below.
\<close>

lemma intParam_ok_iff:
  "snd (intParam r name) \<longleftrightarrow> (\<exists>v. Vars r name = Some v \<and> snd (Atoi v) = None)"
  by (auto simp: intParam_def split: option.splits prod.splits)

lemma intParam_parsed:
  "Vars r name = Some v \<Longrightarrow> Atoi v = (n, None) \<Longrightarrow> intParam r name = (n, True)"
  by (simp add: intParam_def)

text \<open>
  When \<^verbatim>\<open>GetParams\<close> returns a \<^verbatim>\<open>Params\<close>, its fields are the results of the three
  resolvers, none of which failed.
\<close>

lemma GetParams_Some:
  "fst (GetParams mapLower r) = Some p \<Longrightarrow>
     getSize r = (Width p, Height p, None)
     \<and> getFileExtension mapLower r = (Extension p, None)
     \<and> getQueryParams r = (Grayscale p, Blur p, BlurAmount p)"
  by (auto simp: GetParams_def Let_def split: prod.splits if_splits)

text \<open>
  Claim C2. When the path variables contain \<^verbatim>\<open>size\<close> with a value that \<^verbatim>\<open>strconv.Atoi\<close>
  parses to the integer \<open>S\<close>, \<^verbatim>\<open>getSize\<close> returns width \<open>S\<close> and height \<open>S\<close> with no
  error, whatever the variables \<^verbatim>\<open>width\<close> and \<^verbatim>\<open>height\<close> hold; and every \<^verbatim>\<open>Params\<close> that
  \<^verbatim>\<open>GetParams\<close> returns for the request has \<^verbatim>\<open>Width\<close> and \<^verbatim>\<open>Height\<close> equal to \<open>S\<close>.
\<close>

theorem getSize_size_precedence:
  assumes "Vars r ''size'' = Some v" and "Atoi v = (S, None)"
  shows "getSize r = (S, S, None)
         \<and> (\<forall>p. fst (GetParams mapLower r) = Some p \<longrightarrow> Width p = S \<and> Height p = S)"
proof -
  have size: "getSize r = (S, S, None)"
    using intParam_parsed [OF assms] by (simp add: getSize_def)
  moreover have "Width p = S \<and> Height p = S" if "fst (GetParams mapLower r) = Some p" for p
    using GetParams_Some [OF that] size by simp
  ultimately show ?thesis by blast
qed

text \<open>
  \<^verbatim>\<open>size=300\<close> wins over \<^verbatim>\<open>width=1\<close> and \<^verbatim>\<open>height=2\<close>; \<^verbatim>\<open>size=-5\<close> resolves to
  \<open>-5\<close> by \<open>-5\<close> beside a \<^verbatim>\<open>width\<close> that is no integer.
\<close>

theorem getSize_size_precedence_witness:
  "getSize \<lparr>Vars = [''size'' \<mapsto> ''300'', ''width'' \<mapsto> ''1'', ''height'' \<mapsto> ''2''],
             Query = Map.empty\<rparr> = (300, 300, None)
   \<and> getSize \<lparr>Vars = [''size'' \<mapsto> ''-5'', ''width'' \<mapsto> ''abc''],
               Query = Map.empty\<rparr> = (- 5, - 5, None)"
proof -
  have a: "Atoi ''300'' = (300, None)" and b: "Atoi ''-5'' = (- 5, None)"
    by (simp_all add: strconv_eval)
  show ?thesis
    using getSize_size_precedence
        [of "\<lparr>Vars = [''size'' \<mapsto> ''300'', ''width'' \<mapsto> ''1'', ''height'' \<mapsto> ''2''],
               Query = Map.empty\<rparr>" "''300''" 300, OF _ a]
      getSize_size_precedence
        [of "\<lparr>Vars = [''size'' \<mapsto> ''-5'', ''width'' \<mapsto> ''abc''],
               Query = Map.empty\<rparr>" "''-5''" "- 5", OF _ b]
    by simp
qed

text \<open>
  Claim C3. When no \<^verbatim>\<open>size\<close> variable is present with a value that \<^verbatim>\<open>strconv.Atoi\<close>
  accepts, and the variable \<^verbatim>\<open>width\<close> or the variable \<^verbatim>\<open>height\<close> is missing or has a value
  that \<^verbatim>\<open>strconv.Atoi\<close> rejects, \<^verbatim>\<open>getSize\<close> fails with \<^verbatim>\<open>ErrInvalidSize\<close>, and
  \<^verbatim>\<open>GetParams\<close> returns that error with a \<^verbatim>\<open>nil\<close> \<^verbatim>\<open>Params\<close>.
\<close>

theorem getSize_requires_width_and_height:
  assumes "\<forall>v. Vars r ''size'' = Some v \<longrightarrow> snd (Atoi v) \<noteq> None"
    and "(\<forall>v. Vars r ''width'' = Some v \<longrightarrow> snd (Atoi v) \<noteq> None)
         \<or> (\<forall>v. Vars r ''height'' = Some v \<longrightarrow> snd (Atoi v) \<noteq> None)"
  shows "getSize r = (- 1, - 1, Some ErrInvalidSize)
         \<and> GetParams mapLower r = (None, Some ErrInvalidSize)"
proof -
  have nosize: "\<not> snd (intParam r ''size'')"
    using assms(1) by (auto simp: intParam_ok_iff)
  have "\<not> snd (intParam r ''width'') \<or> \<not> snd (intParam r ''height'')"
    using assms(2) by (auto simp: intParam_ok_iff)
  with nosize have "getSize r = (- 1, - 1, Some ErrInvalidSize)"
    by (auto simp: getSize_def split: prod.splits)
  then show ?thesis by (simp add: GetParams_def)
qed

text \<open>
  A request with \<^verbatim>\<open>width\<close> only, a request whose \<^verbatim>\<open>size\<close> and \<^verbatim>\<open>height\<close> are no
  integers, and a request with no path variable at all.
\<close>

theorem getSize_requires_width_and_height_witness:
  "GetParams id \<lparr>Vars = [''width'' \<mapsto> ''200''], Query = Map.empty\<rparr>
     = (None, Some ErrInvalidSize)
   \<and> GetParams id \<lparr>Vars = [''size'' \<mapsto> ''big'', ''width'' \<mapsto> ''200'', ''height'' \<mapsto> ''3x''],
                    Query = Map.empty\<rparr>
     = (None, Some ErrInvalidSize)
   \<and> getSize \<lparr>Vars = Map.empty, Query = Map.empty\<rparr> = (- 1, - 1, Some ErrInvalidSize)"
proof -
  have a: "snd (Atoi ''big'') \<noteq> None" and b: "snd (Atoi ''3x'') \<noteq> None"
    by (simp_all add: strconv_eval)
  show ?thesis
    using getSize_requires_width_and_height
        [of "\<lparr>Vars = [''width'' \<mapsto> ''200''], Query = Map.empty\<rparr>" id]
      getSize_requires_width_and_height
        [of "\<lparr>Vars = [''size'' \<mapsto> ''big'', ''width'' \<mapsto> ''200'', ''height'' \<mapsto> ''3x''],
               Query = Map.empty\<rparr>" id]
      getSize_requires_width_and_height
        [of "\<lparr>Vars = Map.empty, Query = Map.empty\<rparr>" id]
      a b
    by simp
qed

section \<open>Extension resolution\<close>

lemma getFileExtension_result:
  "getFileExtension mapLower r = (e, None) \<Longrightarrow> e = ''.jpg'' \<or> e = ''.webp''"
  by (auto simp: getFileExtension_def Let_def split: if_splits)

text \<open>
  Claim C4. Let \<open>v\<close> be the lowercased \<^verbatim>\<open>extension\<close> path variable, an absent variable
  being the empty string. \<^verbatim>\<open>getFileExtension\<close> returns \<^verbatim>\<open>".jpg"\<close> when \<open>v\<close> is empty or
  \<^verbatim>\<open>".jpg"\<close>, returns \<^verbatim>\<open>".webp"\<close> when \<open>v\<close> is \<^verbatim>\<open>".webp"\<close>, and fails with
  \<^verbatim>\<open>ErrInvalidFileExtension\<close> for every other \<open>v\<close>. So every \<^verbatim>\<open>Params\<close> that \<^verbatim>\<open>GetParams\<close>
  returns has \<^verbatim>\<open>Extension\<close> equal to \<^verbatim>\<open>".jpg"\<close> or \<^verbatim>\<open>".webp"\<close>.
\<close>

theorem getFileExtension_whitelist:
  assumes "v = ToLower mapLower (case Vars r ''extension'' of None \<Rightarrow> [] | Some x \<Rightarrow> x)"
  shows "(v = [] \<or> v = ''.jpg'' \<longrightarrow> getFileExtension mapLower r = (''.jpg'', None))
         \<and> (v = ''.webp'' \<longrightarrow> getFileExtension mapLower r = (''.webp'', None))
         \<and> (v \<noteq> [] \<and> v \<noteq> ''.jpg'' \<and> v \<noteq> ''.webp''
              \<longrightarrow> getFileExtension mapLower r = ([], Some ErrInvalidFileExtension))
         \<and> (\<forall>p. fst (GetParams mapLower r) = Some p
              \<longrightarrow> Extension p = ''.jpg'' \<or> Extension p = ''.webp'')"
proof -
  have "Extension p = ''.jpg'' \<or> Extension p = ''.webp''"
    if "fst (GetParams mapLower r) = Some p" for p
    using GetParams_Some [OF that] getFileExtension_result by blast
  moreover have "v = [] \<or> v = ''.jpg'' \<longrightarrow> getFileExtension mapLower r = (''.jpg'', None)"
    using assms by (auto simp: getFileExtension_def Let_def)
  moreover have "v = ''.webp'' \<longrightarrow> getFileExtension mapLower r = (''.webp'', None)"
    using assms by (auto simp: getFileExtension_def Let_def)
  moreover have "v \<noteq> [] \<and> v \<noteq> ''.jpg'' \<and> v \<noteq> ''.webp''
      \<longrightarrow> getFileExtension mapLower r = ([], Some ErrInvalidFileExtension)"
    using assms by (auto simp: getFileExtension_def Let_def)
  ultimately show ?thesis by blast
qed

text \<open>
  No extension resolves to \<^verbatim>\<open>".jpg"\<close>, \<^verbatim>\<open>".WEBP"\<close> to \<^verbatim>\<open>".webp"\<close>; \<^verbatim>\<open>".png"\<close> fails,
  and so does \<^verbatim>\<open>"jpg"\<close> without its dot.
\<close>

theorem getFileExtension_whitelist_witness:
  "getFileExtension id \<lparr>Vars = [''size'' \<mapsto> ''300''], Query = Map.empty\<rparr> = (''.jpg'', None)
   \<and> getFileExtension id \<lparr>Vars = [''extension'' \<mapsto> ''.WEBP''], Query = Map.empty\<rparr>
       = (''.webp'', None)
   \<and> getFileExtension id \<lparr>Vars = [''extension'' \<mapsto> ''.png''], Query = Map.empty\<rparr>
       = ([], Some ErrInvalidFileExtension)
   \<and> getFileExtension id \<lparr>Vars = [''extension'' \<mapsto> ''jpg''], Query = Map.empty\<rparr>
       = ([], Some ErrInvalidFileExtension)"
  using getFileExtension_whitelist
      [of "[]" id "\<lparr>Vars = [''size'' \<mapsto> ''300''], Query = Map.empty\<rparr>"]
    getFileExtension_whitelist
      [of "''.webp''" id "\<lparr>Vars = [''extension'' \<mapsto> ''.WEBP''], Query = Map.empty\<rparr>"]
    getFileExtension_whitelist
      [of "''.png''" id "\<lparr>Vars = [''extension'' \<mapsto> ''.png''], Query = Map.empty\<rparr>"]
    getFileExtension_whitelist
      [of "''jpg''" id "\<lparr>Vars = [''extension'' \<mapsto> ''jpg''], Query = Map.empty\<rparr>"]
  by (simp add: strings_eval)

section \<open>Query flags\<close>

text \<open>
  Claim C5. \<^verbatim>\<open>getQueryParams\<close> has no error result. Its grayscale flag is true exactly
  when the query has a parameter \<^verbatim>\<open>grayscale\<close>, its blur flag exactly when the query has a
  parameter \<^verbatim>\<open>blur\<close>; and when \<^verbatim>\<open>blur\<close> is present, the blur amount is the integer that
  \<^verbatim>\<open>strconv.Atoi\<close> reads from the parameter's (first) value if it accepts it, with no
  range check, and 5 if it does not.
\<close>

theorem getQueryParams_flags:
  "fst (getQueryParams r) = (Query r ''grayscale'' \<noteq> None)
   \<and> fst (snd (getQueryParams r)) = (Query r ''blur'' \<noteq> None)
   \<and> (Query r ''blur'' \<noteq> None \<longrightarrow>
        snd (snd (getQueryParams r)) =
          (if snd (Atoi (Get (Query r) ''blur'')) = None
           then fst (Atoi (Get (Query r) ''blur'')) else 5))"
  by (auto simp: getQueryParams_def Let_def defaultBlurAmount_def split: prod.splits)

text \<open>
  \<^verbatim>\<open>?blur\<close> gives amount 5, \<^verbatim>\<open>?blur=3&grayscale=0\<close> gives grayscale and amount 3,
  \<^verbatim>\<open>?blur=abc&blur=4\<close> gives 5, \<^verbatim>\<open>?blur=11\<close> gives 11, and \<^verbatim>\<open>?grayscale\<close> alone does not
  set blur.
\<close>

theorem getQueryParams_flags_witness:
  "getQueryParams \<lparr>Vars = Map.empty, Query = [''blur'' \<mapsto> [[]]]\<rparr> = (False, True, 5)
   \<and> getQueryParams \<lparr>Vars = Map.empty, Query = [''blur'' \<mapsto> [''3''], ''grayscale'' \<mapsto> [''0'']]\<rparr>
       = (True, True, 3)
   \<and> getQueryParams \<lparr>Vars = Map.empty, Query = [''blur'' \<mapsto> [''abc'', ''4'']]\<rparr> = (False, True, 5)
   \<and> getQueryParams \<lparr>Vars = Map.empty, Query = [''blur'' \<mapsto> [''11'']]\<rparr> = (False, True, 11)
   \<and> fst (snd (getQueryParams \<lparr>Vars = Map.empty, Query = [''grayscale'' \<mapsto> [[]]]\<rparr>)) = False"
  using getQueryParams_flags [of "\<lparr>Vars = Map.empty, Query = [''blur'' \<mapsto> [[]]]\<rparr>"]
    getQueryParams_flags
      [of "\<lparr>Vars = Map.empty, Query = [''blur'' \<mapsto> [''3''], ''grayscale'' \<mapsto> [''0'']]\<rparr>"]
    getQueryParams_flags [of "\<lparr>Vars = Map.empty, Query = [''blur'' \<mapsto> [''abc'', ''4'']]\<rparr>"]
    getQueryParams_flags [of "\<lparr>Vars = Map.empty, Query = [''blur'' \<mapsto> [''11'']]\<rparr>"]
    getQueryParams_flags [of "\<lparr>Vars = Map.empty, Query = [''grayscale'' \<mapsto> [[]]]\<rparr>"]
  by (simp add: prod_eq_iff Get_def strconv_eval)

section \<open>Determinism\<close>

text \<open>
  Claim C8. The result of \<^verbatim>\<open>GetParams\<close> is determined by the path variables and the
  query parameters: two requests that agree on both, whatever else they hold, give the
  same \<^verbatim>\<open>Params\<close> field values or the same error.
\<close>

theorem GetParams_deterministic:
  assumes "Vars r1 = Vars r2" and "Query r1 = Query r2"
  shows "GetParams mapLower r1 = GetParams mapLower r2"
proof -
  have "intParam r1 name = intParam r2 name" for name
    using assms(1) by (simp add: intParam_def)
  then have "getSize r1 = getSize r2"
    by (simp add: getSize_def split: prod.splits)
  moreover have "getFileExtension mapLower r1 = getFileExtension mapLower r2"
    using assms(1) by (simp add: getFileExtension_def)
  moreover have "getQueryParams r1 = getQueryParams r2"
    using assms(2) by (simp add: getQueryParams_def)
  ultimately show ?thesis
    unfolding GetParams_def by (simp only:)
qed

text \<open>
  Two requests with the same variables and parameters that differ in the rest.
\<close>

theorem GetParams_deterministic_witness:
  "GetParams id \<lparr>Vars = [''size'' \<mapsto> ''300''], Query = [''blur'' \<mapsto> [''3'']], \<dots> = ''GET''\<rparr>
   = GetParams id \<lparr>Vars = [''size'' \<mapsto> ''300''], Query = [''blur'' \<mapsto> [''3'']], \<dots> = ''HEAD''\<rparr>"
  using GetParams_deterministic
    [of "\<lparr>Vars = [''size'' \<mapsto> ''300''], Query = [''blur'' \<mapsto> [''3'']], \<dots> = ''GET''\<rparr>"
        "\<lparr>Vars = [''size'' \<mapsto> ''300''], Query = [''blur'' \<mapsto> [''3'']], \<dots> = ''HEAD''\<rparr>" id]
  by simp

section \<open>Validation\<close>

text \<open>
  Claim C1. \<^verbatim>\<open>Validate\<close> returns \<^verbatim>\<open>ErrInvalidSize\<close> when the width is above 5000 and differs
  from the natural width of the image, or the height is above 5000 and differs from the
  natural height, and in no other case. So a request for exactly the natural size of the
  image is never rejected for its size, whatever that size is, and after a call that
  returns \<^verbatim>\<open>nil\<close> each of width and height is at most 5000 or equal to the natural
  dimension.
\<close>

theorem Validate_size_ceiling:
  "(Validate p img = Some ErrInvalidSize \<longleftrightarrow>
      (5000 < Width p \<and> Width p \<noteq> Image_Width img)
      \<or> (5000 < Height p \<and> Height p \<noteq> Image_Height img))
   \<and> (Width p = Image_Width img \<and> Height p = Image_Height img
        \<longrightarrow> Validate p img \<noteq> Some ErrInvalidSize)
   \<and> (Validate p img = None
        \<longrightarrow> (Width p \<le> 5000 \<or> Width p = Image_Width img)
            \<and> (Height p \<le> 5000 \<or> Height p = Image_Height img))"
proof (intro conjI impI)
  show "Validate p img = Some ErrInvalidSize \<longleftrightarrow>
      (5000 < Width p \<and> Width p \<noteq> Image_Width img)
      \<or> (5000 < Height p \<and> Height p \<noteq> Image_Height img)"
    by (simp add: Validate_unfold maxImageSize_def)
next
  assume "Width p = Image_Width img \<and> Height p = Image_Height img"
  then show "Validate p img \<noteq> Some ErrInvalidSize"
    by (simp add: Validate_unfold)
next
  assume ok: "Validate p img = None"
  show "Width p \<le> 5000 \<or> Width p = Image_Width img"
    using ok by (auto simp: Validate_unfold maxImageSize_def split: if_splits)
  show "Height p \<le> 5000 \<or> Height p = Image_Height img"
    using ok by (auto simp: Validate_unfold maxImageSize_def split: if_splits)
qed

text \<open>
  A request for 6000 by 7000 of an image that is 6000 by 7000 passes the size checks; a
  request for width 6000 of an image of natural width 3000 is rejected.
\<close>

theorem Validate_size_ceiling_witness:
  "Validate \<lparr>Width = 6000, Height = 7000, Blur = False, BlurAmount = 0, Grayscale = False,
              Extension = ''.jpg''\<rparr> \<lparr>Image_Width = 6000, Image_Height = 7000\<rparr>
     \<noteq> Some ErrInvalidSize
   \<and> Validate \<lparr>Width = 6000, Height = 100, Blur = False, BlurAmount = 0, Grayscale = False,
                Extension = ''.jpg''\<rparr> \<lparr>Image_Width = 3000, Image_Height = 100\<rparr>
     = Some ErrInvalidSize"
  using Validate_size_ceiling
      [of "\<lparr>Width = 6000, Height = 7000, Blur = False, BlurAmount = 0, Grayscale = False,
             Extension = ''.jpg''\<rparr>" "\<lparr>Image_Width = 6000, Image_Height = 7000\<rparr>"]
    Validate_size_ceiling
      [of "\<lparr>Width = 6000, Height = 100, Blur = False, BlurAmount = 0, Grayscale = False,
             Extension = ''.jpg''\<rparr>" "\<lparr>Image_Width = 3000, Image_Height = 100\<rparr>"]
  by simp

text \<open>
  Claim C6. When blur is requested and both size checks pass, \<^verbatim>\<open>Validate\<close> returns
  \<^verbatim>\<open>ErrInvalidBlurAmount\<close> exactly when the blur amount is below 1 or above 10, and
  returns \<^verbatim>\<open>nil\<close> when the blur amount is between 1 and 10.
\<close>

theorem Validate_blur_range:
  assumes "Blur p"
    and "\<not> (5000 < Width p \<and> Width p \<noteq> Image_Width img)"
    and "\<not> (5000 < Height p \<and> Height p \<noteq> Image_Height img)"
  shows "(Validate p img = Some ErrInvalidBlurAmount \<longleftrightarrow> BlurAmount p < 1 \<or> 10 < BlurAmount p)
         \<and> (1 \<le> BlurAmount p \<and> BlurAmount p \<le> 10 \<longrightarrow> Validate p img = None)"
  using assms
  by (auto simp: Validate_unfold maxImageSize_def minBlurAmount_def maxBlurAmount_def)

text \<open>
  Blur amounts 0 and 11 are rejected, 1 and 10 are accepted (the last one on a request
  for the natural width 6000).
\<close>

theorem Validate_blur_range_witness:
  "Validate \<lparr>Width = 200, Height = 300, Blur = True, BlurAmount = 0, Grayscale = False,
              Extension = ''.jpg''\<rparr> \<lparr>Image_Width = 800, Image_Height = 600\<rparr>
     = Some ErrInvalidBlurAmount
   \<and> Validate \<lparr>Width = 200, Height = 300, Blur = True, BlurAmount = 11, Grayscale = False,
                Extension = ''.jpg''\<rparr> \<lparr>Image_Width = 800, Image_Height = 600\<rparr>
     = Some ErrInvalidBlurAmount
   \<and> Validate \<lparr>Width = 200, Height = 300, Blur = True, BlurAmount = 1, Grayscale = False,
                Extension = ''.jpg''\<rparr> \<lparr>Image_Width = 800, Image_Height = 600\<rparr>
     = None
   \<and> Validate \<lparr>Width = 6000, Height = 300, Blur = True, BlurAmount = 10, Grayscale = False,
                Extension = ''.jpg''\<rparr> \<lparr>Image_Width = 6000, Image_Height = 600\<rparr>
     = None"
  using Validate_blur_range
      [of "\<lparr>Width = 200, Height = 300, Blur = True, BlurAmount = 0, Grayscale = False,
             Extension = ''.jpg''\<rparr>" "\<lparr>Image_Width = 800, Image_Height = 600\<rparr>"]
    Validate_blur_range
      [of "\<lparr>Width = 200, Height = 300, Blur = True, BlurAmount = 11, Grayscale = False,
             Extension = ''.jpg''\<rparr>" "\<lparr>Image_Width = 800, Image_Height = 600\<rparr>"]
    Validate_blur_range
      [of "\<lparr>Width = 200, Height = 300, Blur = True, BlurAmount = 1, Grayscale = False,
             Extension = ''.jpg''\<rparr>" "\<lparr>Image_Width = 800, Image_Height = 600\<rparr>"]
    Validate_blur_range
      [of "\<lparr>Width = 6000, Height = 300, Blur = True, BlurAmount = 10, Grayscale = False,
             Extension = ''.jpg''\<rparr>" "\<lparr>Image_Width = 6000, Image_Height = 600\<rparr>"]
  by simp

section \<open>Dimensions\<close>

text \<open>
  Claim C7. \<^verbatim>\<open>Dimensions\<close> returns a pair for every \<^verbatim>\<open>Params\<close> and image, with no error
  result: the width and height of the \<^verbatim>\<open>Params\<close>, where a component that is exactly 0 is
  replaced by the natural dimension of the image. Every other value, also one above 5000,
  is returned as it is.
\<close>

theorem Dimensions_defaulting:
  "fst (Dimensions p img) = (if Width p = 0 then Image_Width img else Width p)
   \<and> snd (Dimensions p img) = (if Height p = 0 then Image_Height img else Height p)"
  by (simp add: Dimensions_unfold)

text \<open>
  Width 0 of an image of natural width 800 resolves to 800 and height 200 stays 200; a
  width of 6000 stays 6000.
\<close>

theorem Dimensions_defaulting_witness:
  "Dimensions \<lparr>Width = 0, Height = 200, Blur = False, BlurAmount = 0, Grayscale = False,
                Extension = ''.jpg''\<rparr> \<lparr>Image_Width = 800, Image_Height = 600\<rparr> = (800, 200)
   \<and> Dimensions \<lparr>Width = 6000, Height = 0, Blur = False, BlurAmount = 0, Grayscale = False,
                  Extension = ''.jpg''\<rparr> \<lparr>Image_Width = 800, Image_Height = 600\<rparr> = (6000, 600)"
  using Dimensions_defaulting
      [of "\<lparr>Width = 0, Height = 200, Blur = False, BlurAmount = 0, Grayscale = False,
             Extension = ''.jpg''\<rparr>" "\<lparr>Image_Width = 800, Image_Height = 600\<rparr>"]
    Dimensions_defaulting
      [of "\<lparr>Width = 6000, Height = 0, Blur = False, BlurAmount = 0, Grayscale = False,
             Extension = ''.jpg''\<rparr>" "\<lparr>Image_Width = 800, Image_Height = 600\<rparr>"]
  by (simp add: prod_eq_iff)

text \<open>
  Claim C9. \<^verbatim>\<open>Validate\<close> has no lower bound on the dimensions: without blur, a width and
  a height of at most 5000 (zero and negative values too) give \<^verbatim>\<open>nil\<close> for every image;
  and \<^verbatim>\<open>Dimensions\<close> returns a negative width or height unchanged.
\<close>

theorem Validate_no_lower_bound:
  "(\<not> Blur p \<and> Width p \<le> 5000 \<and> Height p \<le> 5000 \<longrightarrow> Validate p img = None)
   \<and> (Width p < 0 \<longrightarrow> fst (Dimensions p img) = Width p)
   \<and> (Height p < 0 \<longrightarrow> snd (Dimensions p img) = Height p)"
  by (simp add: Validate_unfold Dimensions_unfold maxImageSize_def)

text \<open>
  A request for width \<open>-5\<close> and height 0 is valid, and \<^verbatim>\<open>Dimensions\<close> keeps \<open>-5\<close> and
  \<open>-7\<close>.
\<close>

theorem Validate_no_lower_bound_witness:
  "Validate \<lparr>Width = - 5, Height = 0, Blur = False, BlurAmount = 0, Grayscale = False,
              Extension = ''.jpg''\<rparr> \<lparr>Image_Width = 800, Image_Height = 600\<rparr> = None
   \<and> fst (Dimensions \<lparr>Width = - 5, Height = 0, Blur = False, BlurAmount = 0, Grayscale = False,
              Extension = ''.jpg''\<rparr> \<lparr>Image_Width = 800, Image_Height = 600\<rparr>) = - 5
   \<and> snd (Dimensions \<lparr>Width = 10, Height = - 7, Blur = False, BlurAmount = 0, Grayscale = False,
              Extension = ''.jpg''\<rparr> \<lparr>Image_Width = 800, Image_Height = 600\<rparr>) = - 7"
  using Validate_no_lower_bound
      [of "\<lparr>Width = - 5, Height = 0, Blur = False, BlurAmount = 0, Grayscale = False,
             Extension = ''.jpg''\<rparr>" "\<lparr>Image_Width = 800, Image_Height = 600\<rparr>"]
    Validate_no_lower_bound
      [of "\<lparr>Width = 10, Height = - 7, Blur = False, BlurAmount = 0, Grayscale = False,
             Extension = ''.jpg''\<rparr>" "\<lparr>Image_Width = 800, Image_Height = 600\<rparr>"]
  by simp

section \<open>Frame\<close>

text \<open>
  Claim C10. \<^verbatim>\<open>Validate\<close> and \<^verbatim>\<open>Dimensions\<close> only read their inputs: after either call
  the \<^verbatim>\<open>Params\<close> and the image are what they were before it. No branch of either body
  assigns through \<^verbatim>\<open>p\<close> or through the image pointer; \<^verbatim>\<open>Dimensions\<close> assigns to its
  own results \<^verbatim>\<open>width\<close> and \<^verbatim>\<open>height\<close> only.
\<close>

theorem Validate_Dimensions_read_only:
  "params_obj (snd (Validate_st s)) = params_obj s
   \<and> image_obj (snd (Validate_st s)) = image_obj s
   \<and> params_obj (snd (Dimensions_st s)) = params_obj s
   \<and> image_obj (snd (Dimensions_st s)) = image_obj s"
  by (simp add: Validate_st_def Dimensions_st_def Let_def)

end
